theory Spec2Isabelle
  imports Complex_Main
begin

section \<open>Data model of the side-pass scenario\<close>

text \<open>
  The embedding follows \<^verbatim>\<open>modules/planning/scenarios/side_pass/side_pass_scenario.cc\<close>.
  The value of a C++ \<^verbatim>\<open>double\<close> is read as a \<^typ>\<open>real\<close>, and the comparisons are
  kept in the direction the code writes them. The difference of two doubles is again a
  double, the exact difference rounded: the model does not compute it with the
  subtraction of the reals but takes the rounding subtraction as the parameter
  \<open>double_minus\<close>, so that every statement holds for the rounding the machine performs.
  Enumerations whose declaration lies outside the file keep the enumerators the file
  names and one further constructor for all the others. A member name that ends in an
  underscore in the source ends in a prime here, and the obstacle's \<^verbatim>\<open>Id()\<close> is
  \<open>Id_obstacle\<close>, since \<open>Id\<close> is the identity relation of HOL.
\<close>

datatype ScenarioType = LANE_FOLLOW | SIDE_PASS | OTHER_SCENARIO nat

datatype ScenarioStatus = STATUS_UNKNOWN | STATUS_PROCESSING | STATUS_DONE

datatype StageType = SIDE_PASS_DEFAULT_STAGE | OTHER_STAGE nat

datatype OverlapType =
  CLEAR_AREA | CROSSWALK | PNC_JUNCTION | SIGNAL | STOP_SIGN | OTHER_OVERLAP nat

record SLBoundary =
  start_s :: real
  end_s :: real

record PathOverlap =
  overlap_start_s :: real

record Obstacle =
  Id_obstacle :: string
  IsStatic :: bool
  PerceptionSLBoundary :: SLBoundary

record ReferenceLineInfo =
  AdcSlBoundary :: SLBoundary
  SDistanceToDestination :: real
  FirstEncounteredOverlaps :: "(OverlapType \<times> PathOverlap) list"
  path_decision_obstacles :: "Obstacle list"

text \<open>
  A frame holds its reference lines and its own obstacle index; \<open>Find\<close> is the lookup
  \<^verbatim>\<open>Frame::Find(id)\<close>, with \<open>None\<close> for the null pointer.
\<close>

record Frame =
  reference_line_info :: "ReferenceLineInfo list"
  Find :: "string \<Rightarrow> Obstacle option"

record Scenario =
  scenario_type :: ScenarioType
  GetStatus :: ScenarioStatus

record ScenarioSidePassConfig =
  block_obstacle_min_speed :: real
  min_front_obstacle_distance :: real
  enable_obstacle_blocked_check :: bool

record ScenarioConfig =
  side_pass_config :: ScenarioSidePassConfig

record StageConfig =
  stage_type :: StageType
  stage_name :: string

record SidePassContext =
  scenario_config' :: ScenarioSidePassConfig
  front_blocking_obstacle_id' :: string

text \<open>
  A stage object: the class that was instantiated, the configuration it was built from
  and the context pointer that \<^verbatim>\<open>SetContext\<close> stores.
\<close>

datatype StageClass = StageSidePass

datatype ContextPtr = null_context | address_of_side_pass_context

record Stage =
  stage_class :: StageClass
  config' :: StageConfig
  context' :: ContextPtr

text \<open>
  The collaborators that the file calls and does not define are parameters of the model:
  the obstacle classifier, the distance metric, the command-line flag for signal
  intersections and the printer of a stage configuration. With them comes
  \<open>double_minus a b\<close>, the result of the subtraction \<^verbatim>\<open>a - b\<close> on doubles.
\<close>

record Env =
  IsBlockingObstacleToSidePass :: "Frame \<Rightarrow> Obstacle \<Rightarrow> real \<Rightarrow> real \<Rightarrow> bool \<Rightarrow> bool"
  GetDistanceBetweenADCAndObstacle :: "Frame \<Rightarrow> Obstacle \<Rightarrow> real"
  FLAGS_side_pass_min_signal_intersection_distance :: real
  DebugString :: "StageConfig \<Rightarrow> string"
  double_minus :: "real \<Rightarrow> real \<Rightarrow> real"

text \<open>
  The state the member functions read and write: the scenario object's context and
  message, the slot \<^verbatim>\<open>PlanningContext::GetScenarioInfo()->side_pass_front_blocking_obstacle_id\<close>,
  the static stage factory and the lines written with \<^verbatim>\<open>AERROR\<close>.
  (\<^verbatim>\<open>ADEBUG\<close> output is not modelled.)
\<close>

record State =
  side_pass_context' :: SidePassContext
  msg' :: string
  side_pass_front_blocking_obstacle_id :: string
  s_stage_factory' :: "(StageType \<times> (StageConfig \<Rightarrow> Stage)) list"
  error_log :: "string list"

text \<open>
  \<^verbatim>\<open>std::vector::front()\<close> on an empty vector is undefined behaviour; the model
  returns it as an error value.
\<close>

datatype error = FrontOfEmptyVector

definition front :: "'a list \<Rightarrow> error + 'a" where
  "front xs = (case xs of [] \<Rightarrow> Inl FrontOfEmptyVector | x # _ \<Rightarrow> Inr x)"

definition kClearDistance :: real where
  "kClearDistance = 15.0"

definition kSidePassMaxDistance :: real where
  "kSidePassMaxDistance = 10.0"

section \<open>The stage factory\<close>

text \<open>
  The class template \<^verbatim>\<open>common::util::Factory\<close> is not part of the file. The registry
  is a list of entries \<open>(stage_type_key, constructor)\<close> in the order of registration.
\<close>

text \<open>
  Modelled from the spec: \<^verbatim>\<open>Factory::Empty\<close>, which is missing from the sources; the
  registry "has entries" or has none.
\<close>

definition Empty :: "(StageType \<times> (StageConfig \<Rightarrow> Stage)) list \<Rightarrow> bool" where
  "Empty factory = (factory = [])"

text \<open>
  Modelled from the spec: \<^verbatim>\<open>Factory::Register\<close>, which is missing from the sources;
  an entry is registered once, and registering its key again is a no-op.
\<close>

definition Register ::
  "StageType \<Rightarrow> (StageConfig \<Rightarrow> Stage) \<Rightarrow> (StageType \<times> (StageConfig \<Rightarrow> Stage)) list
     \<Rightarrow> (StageType \<times> (StageConfig \<Rightarrow> Stage)) list" where
  "Register key creator factory =
     (if map_of factory key = None then factory @ [(key, creator)] else factory)"

text \<open>
  Modelled from the spec: \<^verbatim>\<open>Factory::CreateObjectOrNull\<close>, which is missing from the
  sources; a pure lookup that invokes the constructor registered for the key and yields
  null for an unknown key.
\<close>

definition CreateObjectOrNull ::
  "(StageType \<times> (StageConfig \<Rightarrow> Stage)) list \<Rightarrow> StageType \<Rightarrow> StageConfig \<Rightarrow> Stage option" where
  "CreateObjectOrNull factory key config =
     (case map_of factory key of None \<Rightarrow> None | Some creator \<Rightarrow> Some (creator config))"

definition registered_keys :: "(StageType \<times> (StageConfig \<Rightarrow> Stage)) list \<Rightarrow> StageType set" where
  "registered_keys factory = fst ` set factory"

text \<open>
  The registered constructor \<^verbatim>\<open>new StageSidePass(config)\<close>; the new stage has no
  context yet.
\<close>

definition new_StageSidePass :: "StageConfig \<Rightarrow> Stage" where
  "new_StageSidePass config =
     \<lparr>stage_class = StageSidePass, config' = config, context' = null_context\<rparr>"

definition RegisterStages :: "State \<Rightarrow> State" where
  "RegisterStages st =
     (if \<not> Empty (s_stage_factory' st) then st
      else st\<lparr>s_stage_factory' :=
                Register SIDE_PASS_DEFAULT_STAGE new_StageSidePass (s_stage_factory' st)\<rparr>)"

section \<open>The scenario's member functions\<close>

text \<open>
  The constructor builds the scenario object in the given global state: the context is
  filled from the configuration and the planning context, the message starts empty.
\<close>

definition SidePassScenario :: "ScenarioConfig \<Rightarrow> State \<Rightarrow> State" where
  "SidePassScenario config st =
     st\<lparr>side_pass_context' :=
          \<lparr>scenario_config' = side_pass_config config,
           front_blocking_obstacle_id' = side_pass_front_blocking_obstacle_id st\<rparr>,
        msg' := []\<rparr>"

definition CreateStage :: "Env \<Rightarrow> StageConfig \<Rightarrow> State \<Rightarrow> Stage option \<times> State" where
  "CreateStage env stage_config st =
     (let st1 = RegisterStages st in
      case CreateObjectOrNull (s_stage_factory' st1) (stage_type stage_config) stage_config of
        None \<Rightarrow>
          (None,
           st1\<lparr>error_log := error_log st1 @
                  [''Failed to create stage for config: '' @ DebugString env stage_config]\<rparr>)
      | Some ptr \<Rightarrow> (Some (ptr\<lparr>context' := address_of_side_pass_context\<rparr>), st1))"

definition IsFarFromDestination :: "Frame \<Rightarrow> error + bool" where
  "IsFarFromDestination frame =
     (if length (reference_line_info frame) > 1 then Inr False
      else case front (reference_line_info frame) of
        Inl e \<Rightarrow> Inl e
      | Inr reference_line_info_front \<Rightarrow>
          if SDistanceToDestination reference_line_info_front < kClearDistance then Inr False
          else Inr True)"

text \<open>The loop over the first encountered overlaps; \<open>False\<close> is the early return.\<close>

fun overlaps_loop :: "Env \<Rightarrow> SLBoundary \<Rightarrow> (OverlapType \<times> PathOverlap) list \<Rightarrow> bool" where
  "overlaps_loop env adc_sl_boundary [] = True"
| "overlaps_loop env adc_sl_boundary (overlap # rest) =
     (if fst overlap \<noteq> CLEAR_AREA \<and> fst overlap \<noteq> CROSSWALK \<and>
         fst overlap \<noteq> SIGNAL \<and> fst overlap \<noteq> STOP_SIGN
      then overlaps_loop env adc_sl_boundary rest
      else
        let distance = double_minus env (overlap_start_s (snd overlap)) (end_s adc_sl_boundary) in
        if fst overlap = SIGNAL then
          (if distance < FLAGS_side_pass_min_signal_intersection_distance env then False
           else overlaps_loop env adc_sl_boundary rest)
        else
          (if distance < kClearDistance then False
           else overlaps_loop env adc_sl_boundary rest))"

definition IsFarFromIntersection :: "Env \<Rightarrow> Frame \<Rightarrow> error + bool" where
  "IsFarFromIntersection env frame =
     (if length (reference_line_info frame) > 1 then Inr False
      else case front (reference_line_info frame) of
        Inl e \<Rightarrow> Inl e
      | Inr reference_line_info_front \<Rightarrow>
          Inr (overlaps_loop env (AdcSlBoundary reference_line_info_front)
                 (FirstEncounteredOverlaps reference_line_info_front)))"

text \<open>
  The two writes of the tracked id inside the loop of \<^verbatim>\<open>HasBlockingObstacle\<close>: the id
  goes to the scenario's context and, from there, to the planning context.
\<close>

definition set_front_blocking_obstacle_id :: "string \<Rightarrow> State \<Rightarrow> State" where
  "set_front_blocking_obstacle_id new_id st =
     (let st1 = st\<lparr>side_pass_context' :=
                     (side_pass_context' st)\<lparr>front_blocking_obstacle_id' := new_id\<rparr>\<rparr>
      in st1\<lparr>side_pass_front_blocking_obstacle_id :=
                front_blocking_obstacle_id' (side_pass_context' st1)\<rparr>)"

text \<open>
  One iteration of the obstacle loop on the loop variables
  \<open>(distance_to_closest_blocking_obstacle, exists_a_blocking_obstacle)\<close> and the state.
\<close>

definition obstacle_step ::
  "Env \<Rightarrow> Frame \<Rightarrow> Obstacle \<Rightarrow> real \<times> bool \<times> State \<Rightarrow> real \<times> bool \<times> State" where
  "obstacle_step env frame obstacle vars =
     (case vars of (distance_to_closest_blocking_obstacle, exists_a_blocking_obstacle, st) \<Rightarrow>
        let side_pass_config = scenario_config' (side_pass_context' st) in
        if IsBlockingObstacleToSidePass env frame obstacle
             (block_obstacle_min_speed side_pass_config)
             (min_front_obstacle_distance side_pass_config)
             (enable_obstacle_blocked_check side_pass_config)
        then
          let distance_between_adc_and_obstacle =
                GetDistanceBetweenADCAndObstacle env frame obstacle in
          if distance_to_closest_blocking_obstacle < 0.0 \<or>
             distance_between_adc_and_obstacle < distance_to_closest_blocking_obstacle
          then (distance_between_adc_and_obstacle, True,
                set_front_blocking_obstacle_id (Id_obstacle obstacle) st)
          else (distance_to_closest_blocking_obstacle, True, st)
        else (distance_to_closest_blocking_obstacle, exists_a_blocking_obstacle, st))"

fun obstacles_loop ::
  "Env \<Rightarrow> Frame \<Rightarrow> Obstacle list \<Rightarrow> real \<times> bool \<times> State \<Rightarrow> real \<times> bool \<times> State" where
  "obstacles_loop env frame [] vars = vars"
| "obstacles_loop env frame (obstacle # rest) vars =
     obstacles_loop env frame rest (obstacle_step env frame obstacle vars)"

definition HasBlockingObstacle :: "Env \<Rightarrow> Frame \<Rightarrow> State \<Rightarrow> error + (bool \<times> State)" where
  "HasBlockingObstacle env frame st =
     (if length (reference_line_info frame) > 1 then Inr (False, st)
      else case front (reference_line_info frame) of
        Inl e \<Rightarrow> Inl e
      | Inr reference_line_info_front \<Rightarrow>
          (case obstacles_loop env frame (path_decision_obstacles reference_line_info_front)
                  (- 100.0, False, st) of
             (distance_to_closest_blocking_obstacle, exists_a_blocking_obstacle, st1) \<Rightarrow>
               if exists_a_blocking_obstacle then Inr (True, st1)
               else Inr (False, set_front_blocking_obstacle_id [] st1)))"

text \<open>The conjunction of \<^verbatim>\<open>IsSidePassScenario\<close> evaluates its operands left to right and
  stops at the first false one.\<close>

definition IsSidePassScenario :: "Env \<Rightarrow> Frame \<Rightarrow> State \<Rightarrow> error + (bool \<times> State)" where
  "IsSidePassScenario env frame st =
     (case IsFarFromDestination frame of
        Inl e \<Rightarrow> Inl e
      | Inr far_from_destination \<Rightarrow>
          if \<not> far_from_destination then Inr (False, st)
          else
            (case IsFarFromIntersection env frame of
               Inl e \<Rightarrow> Inl e
             | Inr far_from_intersection \<Rightarrow>
                 if \<not> far_from_intersection then Inr (False, st)
                 else HasBlockingObstacle env frame st))"

definition IsTransferable ::
  "Env \<Rightarrow> Scenario \<Rightarrow> Frame \<Rightarrow> State \<Rightarrow> error + (bool \<times> State)" where
  "IsTransferable env current_scenario frame st =
     (if length (reference_line_info frame) > 1 then Inr (False, st)
      else
        let front_blocking_obstacle_id = side_pass_front_blocking_obstacle_id st in
        if scenario_type current_scenario = SIDE_PASS then
          (case Find frame front_blocking_obstacle_id of
             None \<Rightarrow> Inr (False, st)
           | Some ptr_front_blocking_obstacle \<Rightarrow>
               if \<not> IsStatic ptr_front_blocking_obstacle then Inr (False, st)
               else
                 (case front (reference_line_info frame) of
                    Inl e \<Rightarrow> Inl e
                  | Inr reference_line_info_front \<Rightarrow>
                      let ego_front_edge_s = end_s (AdcSlBoundary reference_line_info_front);
                          obstacle_ego_distance =
                            double_minus env
                              (start_s (PerceptionSLBoundary ptr_front_blocking_obstacle))
                              ego_front_edge_s
                      in if obstacle_ego_distance > kSidePassMaxDistance then Inr (False, st)
                         else Inr (GetStatus current_scenario \<noteq> STATUS_DONE,
                                   st\<lparr>msg' := ''side pass obstacle: '' @ front_blocking_obstacle_id\<rparr>)))
        else if scenario_type current_scenario \<noteq> LANE_FOLLOW then Inr (False, st)
        else
          (case IsSidePassScenario env frame st of
             Inl e \<Rightarrow> Inl e
           | Inr (is_side_pass, st1) \<Rightarrow>
               if is_side_pass
               then Inr (True, st1\<lparr>msg' := ''side pass obstacle: '' @ front_blocking_obstacle_id\<rparr>)
               else Inr (False, st1)))"

section \<open>The properties in the words of the specification\<close>

text \<open>
  The tracked blocking-obstacle id as the scenario's context (ManeuverContext) and as the
  planning context (CrossCycleState) hold it.
\<close>

definition tracked_ids :: "State \<Rightarrow> string \<times> string" where
  "tracked_ids st =
     (front_blocking_obstacle_id' (side_pass_context' st), side_pass_front_blocking_obstacle_id st)"

text \<open>The obstacles of a registry that the classifier judges as blocking, in scan order.\<close>

definition blocking_obstacles :: "Env \<Rightarrow> Frame \<Rightarrow> State \<Rightarrow> Obstacle list \<Rightarrow> Obstacle list" where
  "blocking_obstacles env frame st obstacles =
     filter (\<lambda>obstacle. IsBlockingObstacleToSidePass env frame obstacle
               (block_obstacle_min_speed (scenario_config' (side_pass_context' st)))
               (min_front_obstacle_distance (scenario_config' (side_pass_context' st)))
               (enable_obstacle_blocked_check (scenario_config' (side_pass_context' st))))
       obstacles"

text \<open>
  The candidate with the smallest distance; among candidates of equal distance the one
  scanned first.
\<close>

definition closest_first :: "(Obstacle \<Rightarrow> real) \<Rightarrow> Obstacle list \<Rightarrow> Obstacle option" where
  "closest_first distance_of candidates =
     find (\<lambda>c. \<forall>c' \<in> set candidates. distance_of c \<le> distance_of c') candidates"

definition closest_blocking_obstacle ::
  "Env \<Rightarrow> Frame \<Rightarrow> State \<Rightarrow> ReferenceLineInfo \<Rightarrow> Obstacle option" where
  "closest_blocking_obstacle env frame st rli =
     closest_first (GetDistanceBetweenADCAndObstacle env frame)
       (blocking_obstacles env frame st (path_decision_obstacles rli))"

text \<open>
  The overlap types that count for the distance to an intersection, the threshold of
  each, and the result the specification gives: no relevant overlap is closer than its
  threshold. The distance of an overlap is the difference \<open>overlap.start - ego.end\<close>
  as the doubles give it.
\<close>

definition relevant_overlap :: "OverlapType \<Rightarrow> bool" where
  "relevant_overlap t = (t \<in> {CLEAR_AREA, CROSSWALK, SIGNAL, STOP_SIGN})"

definition overlap_threshold :: "Env \<Rightarrow> OverlapType \<Rightarrow> real" where
  "overlap_threshold env t =
     (if t = SIGNAL then FLAGS_side_pass_min_signal_intersection_distance env else 15.0)"

definition too_close :: "Env \<Rightarrow> ReferenceLineInfo \<Rightarrow> OverlapType \<times> PathOverlap \<Rightarrow> bool" where
  "too_close env rli overlap =
     (relevant_overlap (fst overlap) \<and>
      double_minus env (overlap_start_s (snd overlap)) (end_s (AdcSlBoundary rli))
        < overlap_threshold env (fst overlap))"

definition no_overlap_too_close :: "Env \<Rightarrow> ReferenceLineInfo \<Rightarrow> bool" where
  "no_overlap_too_close env rli =
     (\<forall>overlap \<in> set (FirstEncounteredOverlaps rli). \<not> too_close env rli overlap)"

text \<open>
  An id names an obstacle of the snapshot when the frame's own index finds it or some
  reference line's registry holds an obstacle of that id.
\<close>

definition names_snapshot_obstacle :: "Frame \<Rightarrow> string \<Rightarrow> bool" where
  "names_snapshot_obstacle frame i =
     (Find frame i \<noteq> None \<or>
      (\<exists>rli \<in> set (reference_line_info frame).
         \<exists>obstacle \<in> set (path_decision_obstacles rli). Id_obstacle obstacle = i))"

definition context_id_valid :: "Frame \<Rightarrow> State \<Rightarrow> bool" where
  "context_id_valid frame st =
     (front_blocking_obstacle_id' (side_pass_context' st) = [] \<or>
      names_snapshot_obstacle frame (front_blocking_obstacle_id' (side_pass_context' st)))"

section \<open>Concrete snapshots\<close>

text \<open>
  Small snapshots on which the functions are evaluated. The ego vehicle's boundary ends
  at station 10; an example obstacle is four units long; the example classifier calls an
  obstacle blocking when it is static, and the example distance is the gap between the
  obstacle's start and the ego vehicle's front edge on the first reference line. The
  stations of the examples are small multiples of a power of two, numbers whose
  differences a double holds without rounding, so the example subtraction on doubles is
  the exact one.
\<close>

definition example_obstacle :: "string \<Rightarrow> bool \<Rightarrow> real \<Rightarrow> Obstacle" where
  "example_obstacle name static gap =
     \<lparr>Id_obstacle = name, IsStatic = static,
      PerceptionSLBoundary = \<lparr>start_s = 10 + gap, end_s = 14 + gap\<rparr>\<rparr>"

definition example_line ::
  "real \<Rightarrow> (OverlapType \<times> PathOverlap) list \<Rightarrow> Obstacle list \<Rightarrow> ReferenceLineInfo" where
  "example_line to_destination overlaps obstacles =
     \<lparr>AdcSlBoundary = \<lparr>start_s = 5, end_s = 10\<rparr>,
      SDistanceToDestination = to_destination,
      FirstEncounteredOverlaps = overlaps,
      path_decision_obstacles = obstacles\<rparr>"

definition example_frame :: "ReferenceLineInfo list \<Rightarrow> Frame" where
  "example_frame lines =
     \<lparr>reference_line_info = lines,
      Find = map_of (map (\<lambda>obstacle. (Id_obstacle obstacle, obstacle))
                       (concat (map path_decision_obstacles lines)))\<rparr>"

definition example_gap :: "Frame \<Rightarrow> Obstacle \<Rightarrow> real" where
  "example_gap frame obstacle =
     (case reference_line_info frame of
        [] \<Rightarrow> 0
      | rli # _ \<Rightarrow> start_s (PerceptionSLBoundary obstacle) - end_s (AdcSlBoundary rli))"

definition example_env :: Env where
  "example_env =
     \<lparr>IsBlockingObstacleToSidePass = (\<lambda>frame obstacle min_speed min_distance check. IsStatic obstacle),
      GetDistanceBetweenADCAndObstacle = example_gap,
      FLAGS_side_pass_min_signal_intersection_distance = 50,
      DebugString = stage_name,
      double_minus = (\<lambda>a b. a - b)\<rparr>"

definition example_config :: ScenarioSidePassConfig where
  "example_config =
     \<lparr>block_obstacle_min_speed = 0.1, min_front_obstacle_distance = 1,
      enable_obstacle_blocked_check = False\<rparr>"

definition example_state :: "string \<Rightarrow> State" where
  "example_state tracked =
     \<lparr>side_pass_context' =
        \<lparr>scenario_config' = example_config, front_blocking_obstacle_id' = tracked\<rparr>,
      msg' = [],
      side_pass_front_blocking_obstacle_id = tracked,
      s_stage_factory' = [],
      error_log = []\<rparr>"

definition example_scenario :: "ScenarioType \<Rightarrow> ScenarioStatus \<Rightarrow> Scenario" where
  "example_scenario t s = \<lparr>scenario_type = t, GetStatus = s\<rparr>"

section \<open>The guard on the number of reference lines\<close>

text \<open>
  Claim C4. On a snapshot with more than one reference line each of
  \<open>IsTransferable\<close>, \<open>IsFarFromDestination\<close>, \<open>IsFarFromIntersection\<close> and
  \<open>HasBlockingObstacle\<close> returns false, whatever the rest of the snapshot, the current
  scenario and the state are.
\<close>

theorem guards_reject_several_reference_lines:
  assumes "length (reference_line_info frame) > 1"
  shows "IsTransferable env current_scenario frame st = Inr (False, st)
       \<and> IsFarFromDestination frame = Inr False
       \<and> IsFarFromIntersection env frame = Inr False
       \<and> HasBlockingObstacle env frame st = Inr (False, st)"
  using assms
  by (simp add: IsTransferable_def IsFarFromDestination_def IsFarFromIntersection_def
      HasBlockingObstacle_def)

theorem guards_reject_several_reference_lines_witness:
  "length (reference_line_info (example_frame [example_line 20 [] [], example_line 20 [] []])) > 1
   \<and> IsTransferable example_env (example_scenario LANE_FOLLOW STATUS_PROCESSING)
        (example_frame [example_line 20 [] [], example_line 20 [] []]) (example_state ''7'')
       = Inr (False, example_state ''7'')
   \<and> IsFarFromDestination (example_frame [example_line 20 [] [], example_line 20 [] []]) = Inr False
   \<and> IsFarFromIntersection example_env (example_frame [example_line 20 [] [], example_line 20 [] []])
       = Inr False
   \<and> HasBlockingObstacle example_env (example_frame [example_line 20 [] [], example_line 20 [] []])
        (example_state ''7'') = Inr (False, example_state ''7'')"
proof -
  have h: "length (reference_line_info (example_frame [example_line 20 [] [], example_line 20 [] []])) > 1"
    by (simp add: example_frame_def)
  show ?thesis
    using h guards_reject_several_reference_lines [OF h] by simp
qed

text \<open>
  Claim C10. On a snapshot with more than one reference line \<open>HasBlockingObstacle\<close>
  returns false and hands back the state it was given: the guard returns before any
  write, so a tracked id kept from an earlier cycle stays in the scenario's context and
  in the planning context, also when no obstacle of the snapshot is blocking.
\<close>

theorem several_reference_lines_keep_tracked_id:
  assumes "length (reference_line_info frame) > 1"
  shows "HasBlockingObstacle env frame st = Inr (False, st)"
  using assms by (simp add: HasBlockingObstacle_def)

theorem several_reference_lines_keep_tracked_id_witness:
  "length (reference_line_info
      (example_frame [example_line 20 [] [example_obstacle ''moving'' False 3], example_line 20 [] []])) > 1
   \<and> HasBlockingObstacle example_env
        (example_frame [example_line 20 [] [example_obstacle ''moving'' False 3], example_line 20 [] []])
        (example_state ''7'') = Inr (False, example_state ''7'')
   \<and> tracked_ids (example_state ''7'') = (''7'', ''7'')"
proof -
  have h: "length (reference_line_info
      (example_frame [example_line 20 [] [example_obstacle ''moving'' False 3], example_line 20 [] []])) > 1"
    by (simp add: example_frame_def)
  show ?thesis
    using h several_reference_lines_keep_tracked_id [OF h]
    by (simp add: tracked_ids_def example_state_def)
qed

section \<open>Continuing the maneuver\<close>

text \<open>
  Claim C5. While the current scenario is the side pass and the snapshot has one
  reference line, \<open>IsTransferable\<close> returns false when the frame does not find the
  tracked id (the one the planning context holds), and returns false when it finds an
  obstacle that is not static, whatever that obstacle's distance is.
\<close>

theorem continuation_stops_for_vanished_or_moving_obstacle:
  assumes "scenario_type current_scenario = SIDE_PASS"
    and "reference_line_info frame = [rli]"
  shows "(Find frame (side_pass_front_blocking_obstacle_id st) = None
            \<longrightarrow> IsTransferable env current_scenario frame st = Inr (False, st))
       \<and> (\<forall>obstacle. Find frame (side_pass_front_blocking_obstacle_id st) = Some obstacle
             \<and> \<not> IsStatic obstacle
            \<longrightarrow> IsTransferable env current_scenario frame st = Inr (False, st))"
  using assms by (simp add: IsTransferable_def)

theorem continuation_stops_for_vanished_or_moving_obstacle_witness:
  "scenario_type (example_scenario SIDE_PASS STATUS_PROCESSING) = SIDE_PASS
   \<and> reference_line_info (example_frame [example_line 20 [] [example_obstacle ''moving'' False 3]])
       = [example_line 20 [] [example_obstacle ''moving'' False 3]]
   \<and> Find (example_frame [example_line 20 [] [example_obstacle ''moving'' False 3]])
        (side_pass_front_blocking_obstacle_id (example_state ''gone'')) = None
   \<and> IsTransferable example_env (example_scenario SIDE_PASS STATUS_PROCESSING)
        (example_frame [example_line 20 [] [example_obstacle ''moving'' False 3]])
        (example_state ''gone'') = Inr (False, example_state ''gone'')
   \<and> Find (example_frame [example_line 20 [] [example_obstacle ''moving'' False 3]])
        (side_pass_front_blocking_obstacle_id (example_state ''moving''))
       = Some (example_obstacle ''moving'' False 3)
   \<and> \<not> IsStatic (example_obstacle ''moving'' False 3)
   \<and> IsTransferable example_env (example_scenario SIDE_PASS STATUS_PROCESSING)
        (example_frame [example_line 20 [] [example_obstacle ''moving'' False 3]])
        (example_state ''moving'') = Inr (False, example_state ''moving'')"
proof -
  let ?frame = "example_frame [example_line 20 [] [example_obstacle ''moving'' False 3]]"
  let ?cur = "example_scenario SIDE_PASS STATUS_PROCESSING"
  have t: "scenario_type ?cur = SIDE_PASS"
    by (simp add: example_scenario_def)
  have l: "reference_line_info ?frame = [example_line 20 [] [example_obstacle ''moving'' False 3]]"
    by (simp add: example_frame_def)
  have gone: "Find ?frame (side_pass_front_blocking_obstacle_id (example_state ''gone'')) = None"
    by (simp add: example_frame_def example_state_def example_line_def example_obstacle_def)
  have moving: "Find ?frame (side_pass_front_blocking_obstacle_id (example_state ''moving''))
      = Some (example_obstacle ''moving'' False 3)"
    by (simp add: example_frame_def example_state_def example_line_def example_obstacle_def)
  have ns: "\<not> IsStatic (example_obstacle ''moving'' False 3)"
    by (simp add: example_obstacle_def)
  from continuation_stops_for_vanished_or_moving_obstacle
         [OF t l, of "example_state ''gone''" example_env] gone
  have r1: "IsTransferable example_env ?cur ?frame (example_state ''gone'')
      = Inr (False, example_state ''gone'')"
    by blast
  from continuation_stops_for_vanished_or_moving_obstacle
         [OF t l, of "example_state ''moving''" example_env] moving ns
  have r2: "IsTransferable example_env ?cur ?frame (example_state ''moving'')
      = Inr (False, example_state ''moving'')"
    by blast
  from t l gone r1 moving ns r2 show ?thesis by blast
qed

text \<open>
  Claim C2, as the specification states it, fails when the current scenario's status is
  \<open>STATUS_DONE\<close>: at a gap of exactly 10.0 the function then returns false.
\<close>

theorem continuation_at_abort_distance_counterexample:
  "scenario_type (example_scenario SIDE_PASS STATUS_DONE) = SIDE_PASS
   \<and> length (reference_line_info (example_frame [example_line 20 [] [example_obstacle ''7'' True 10]])) = 1
   \<and> Find (example_frame [example_line 20 [] [example_obstacle ''7'' True 10]])
        (side_pass_front_blocking_obstacle_id (example_state ''7''))
       = Some (example_obstacle ''7'' True 10)
   \<and> IsStatic (example_obstacle ''7'' True 10)
   \<and> double_minus example_env
        (start_s (PerceptionSLBoundary (example_obstacle ''7'' True 10)))
        (end_s (AdcSlBoundary (example_line 20 [] [example_obstacle ''7'' True 10]))) = 10.0
   \<and> IsTransferable example_env (example_scenario SIDE_PASS STATUS_DONE)
        (example_frame [example_line 20 [] [example_obstacle ''7'' True 10]]) (example_state ''7'')
       = Inr (False, (example_state ''7'')\<lparr>msg' := ''side pass obstacle: 7''\<rparr>)"
  by (simp add: IsTransferable_def example_scenario_def example_frame_def example_line_def
      example_obstacle_def example_state_def example_env_def front_def
      kSidePassMaxDistance_def Let_def)

text \<open>
  Claim C2, amended. While the current scenario is the side pass, the snapshot has one
  reference line and the frame finds the tracked obstacle and it is static, let the gap
  be the difference \<open>obstacle.start_s - ego.end_s\<close> as the subtraction on doubles gives
  it. With a gap of at most 10.0, in particular of exactly 10.0, \<open>IsTransferable\<close>
  returns true exactly when the current scenario's status is not \<open>STATUS_DONE\<close> (and
  records the message); with a gap above 10.0 it returns false.
\<close>

theorem continuation_at_abort_distance:
  assumes "scenario_type current_scenario = SIDE_PASS"
    and "reference_line_info frame = [rli]"
    and "Find frame (side_pass_front_blocking_obstacle_id st) = Some obstacle"
    and "IsStatic obstacle"
  shows "(double_minus env (start_s (PerceptionSLBoundary obstacle)) (end_s (AdcSlBoundary rli))
            \<le> 10.0 \<longrightarrow>
            IsTransferable env current_scenario frame st
              = Inr (GetStatus current_scenario \<noteq> STATUS_DONE,
                     st\<lparr>msg' := ''side pass obstacle: '' @ side_pass_front_blocking_obstacle_id st\<rparr>))
       \<and> (double_minus env (start_s (PerceptionSLBoundary obstacle)) (end_s (AdcSlBoundary rli))
            > 10.0 \<longrightarrow>
            IsTransferable env current_scenario frame st = Inr (False, st))"
  using assms
  by (simp add: IsTransferable_def front_def kSidePassMaxDistance_def Let_def)

theorem continuation_at_abort_distance_witness:
  "scenario_type (example_scenario SIDE_PASS STATUS_PROCESSING) = SIDE_PASS
   \<and> reference_line_info (example_frame [example_line 20 [] [example_obstacle ''7'' True 10]])
       = [example_line 20 [] [example_obstacle ''7'' True 10]]
   \<and> Find (example_frame [example_line 20 [] [example_obstacle ''7'' True 10]])
        (side_pass_front_blocking_obstacle_id (example_state ''7''))
       = Some (example_obstacle ''7'' True 10)
   \<and> IsStatic (example_obstacle ''7'' True 10)
   \<and> double_minus example_env
        (start_s (PerceptionSLBoundary (example_obstacle ''7'' True 10)))
        (end_s (AdcSlBoundary (example_line 20 [] [example_obstacle ''7'' True 10]))) = 10.0
   \<and> IsTransferable example_env (example_scenario SIDE_PASS STATUS_PROCESSING)
        (example_frame [example_line 20 [] [example_obstacle ''7'' True 10]]) (example_state ''7'')
       = Inr (True, (example_state ''7'')\<lparr>msg' := ''side pass obstacle: 7''\<rparr>)
   \<and> reference_line_info (example_frame [example_line 20 [] [example_obstacle ''7'' True 10.125]])
       = [example_line 20 [] [example_obstacle ''7'' True 10.125]]
   \<and> Find (example_frame [example_line 20 [] [example_obstacle ''7'' True 10.125]])
        (side_pass_front_blocking_obstacle_id (example_state ''7''))
       = Some (example_obstacle ''7'' True 10.125)
   \<and> IsStatic (example_obstacle ''7'' True 10.125)
   \<and> double_minus example_env
        (start_s (PerceptionSLBoundary (example_obstacle ''7'' True 10.125)))
        (end_s (AdcSlBoundary (example_line 20 [] [example_obstacle ''7'' True 10.125]))) > 10.0
   \<and> IsTransferable example_env (example_scenario SIDE_PASS STATUS_PROCESSING)
        (example_frame [example_line 20 [] [example_obstacle ''7'' True 10.125]]) (example_state ''7'')
       = Inr (False, example_state ''7'')"
proof -
  let ?cur = "example_scenario SIDE_PASS STATUS_PROCESSING"
  let ?ob = "example_obstacle ''7'' True 10"
  let ?frame = "example_frame [example_line 20 [] [?ob]]"
  let ?ob' = "example_obstacle ''7'' True 10.125"
  let ?frame' = "example_frame [example_line 20 [] [?ob']]"
  let ?st = "example_state ''7''"
  have t: "scenario_type ?cur = SIDE_PASS"
    by (simp add: example_scenario_def)
  have l: "reference_line_info ?frame = [example_line 20 [] [?ob]]"
    and l': "reference_line_info ?frame' = [example_line 20 [] [?ob']]"
    by (simp_all add: example_frame_def)
  have f: "Find ?frame (side_pass_front_blocking_obstacle_id ?st) = Some ?ob"
    and f': "Find ?frame' (side_pass_front_blocking_obstacle_id ?st) = Some ?ob'"
    by (simp_all add: example_frame_def example_state_def example_line_def example_obstacle_def)
  have s: "IsStatic ?ob" and s': "IsStatic ?ob'"
    by (simp_all add: example_obstacle_def)
  have g: "double_minus example_env (start_s (PerceptionSLBoundary ?ob))
             (end_s (AdcSlBoundary (example_line 20 [] [?ob]))) = 10.0"
    and g': "double_minus example_env (start_s (PerceptionSLBoundary ?ob'))
             (end_s (AdcSlBoundary (example_line 20 [] [?ob']))) > 10.0"
    by (simp_all add: example_env_def example_obstacle_def example_line_def)
  have n: "GetStatus ?cur \<noteq> STATUS_DONE"
    and m: "''side pass obstacle: '' @ side_pass_front_blocking_obstacle_id ?st = ''side pass obstacle: 7''"
    by (simp_all add: example_scenario_def example_state_def)
  from continuation_at_abort_distance [OF t l f s, of example_env] g n m
  have r: "IsTransferable example_env ?cur ?frame ?st
      = Inr (True, ?st\<lparr>msg' := ''side pass obstacle: 7''\<rparr>)"
    by simp
  from continuation_at_abort_distance [OF t l' f' s', of example_env] g'
  have r': "IsTransferable example_env ?cur ?frame' ?st = Inr (False, ?st)"
    by blast
  from t l f s g r l' f' s' g' r' show ?thesis by blast
qed

section \<open>Entering the maneuver\<close>

lemma IsTransferable_tracked_ids:
  assumes "IsTransferable env current_scenario frame st = Inr (b, st')"
  shows "tracked_ids st' = tracked_ids st
       \<or> (\<exists>b' st''. HasBlockingObstacle env frame st = Inr (b', st'')
             \<and> tracked_ids st' = tracked_ids st'')"
  using assms
  by (auto simp add: IsTransferable_def IsSidePassScenario_def tracked_ids_def Let_def
      split: if_splits option.splits sum.splits prod.splits)

text \<open>
  Claim C6. In default driving (\<open>LANE_FOLLOW\<close>) on a snapshot with one reference line,
  when \<open>IsFarFromDestination\<close> returns false, \<open>IsSidePassScenario\<close> and
  \<open>IsTransferable\<close> return false and hand back the state unchanged, whatever the
  classifier and the obstacles are: \<open>HasBlockingObstacle\<close> has no part in the result. In
  every call of \<open>IsTransferable\<close> the tracked ids afterwards are those before the call or
  those that \<open>HasBlockingObstacle\<close> writes.
\<close>

theorem entry_stopped_by_destination_keeps_state:
  "(scenario_type current_scenario = LANE_FOLLOW \<and> reference_line_info frame = [rli]
      \<and> IsFarFromDestination frame = Inr False
     \<longrightarrow> IsSidePassScenario env frame st = Inr (False, st)
         \<and> IsTransferable env current_scenario frame st = Inr (False, st))
   \<and> (\<forall>b st'. IsTransferable env current_scenario frame st = Inr (b, st') \<longrightarrow>
          tracked_ids st' = tracked_ids st
          \<or> (\<exists>b' st''. HasBlockingObstacle env frame st = Inr (b', st'')
                \<and> tracked_ids st' = tracked_ids st''))"
proof (intro conjI impI allI)
  assume a: "scenario_type current_scenario = LANE_FOLLOW \<and> reference_line_info frame = [rli]
      \<and> IsFarFromDestination frame = Inr False"
  then show s: "IsSidePassScenario env frame st = Inr (False, st)"
    by (simp add: IsSidePassScenario_def)
  from a s show "IsTransferable env current_scenario frame st = Inr (False, st)"
    by (simp add: IsTransferable_def)
next
  fix b st'
  assume "IsTransferable env current_scenario frame st = Inr (b, st')"
  then show "tracked_ids st' = tracked_ids st
          \<or> (\<exists>b' st''. HasBlockingObstacle env frame st = Inr (b', st'')
                \<and> tracked_ids st' = tracked_ids st'')"
    by (rule IsTransferable_tracked_ids)
qed

theorem entry_stopped_by_destination_keeps_state_witness:
  "scenario_type (example_scenario LANE_FOLLOW STATUS_PROCESSING) = LANE_FOLLOW
   \<and> reference_line_info (example_frame [example_line 10 [] [example_obstacle ''5'' True 5]])
       = [example_line 10 [] [example_obstacle ''5'' True 5]]
   \<and> IsFarFromDestination (example_frame [example_line 10 [] [example_obstacle ''5'' True 5]])
       = Inr False
   \<and> IsTransferable example_env (example_scenario LANE_FOLLOW STATUS_PROCESSING)
        (example_frame [example_line 10 [] [example_obstacle ''5'' True 5]]) (example_state ''7'')
       = Inr (False, example_state ''7'')
   \<and> HasBlockingObstacle example_env
        (example_frame [example_line 10 [] [example_obstacle ''5'' True 5]]) (example_state ''7'')
       = Inr (True, example_state ''5'')
   \<and> IsTransferable example_env (example_scenario LANE_FOLLOW STATUS_PROCESSING)
        (example_frame [example_line 20 [] [example_obstacle ''5'' True 5]]) (example_state ''7'')
       = Inr (True, (example_state ''5'')\<lparr>msg' := ''side pass obstacle: 7''\<rparr>)
   \<and> HasBlockingObstacle example_env
        (example_frame [example_line 20 [] [example_obstacle ''5'' True 5]]) (example_state ''7'')
       = Inr (True, example_state ''5'')
   \<and> tracked_ids ((example_state ''5'')\<lparr>msg' := ''side pass obstacle: 7''\<rparr>)
       = tracked_ids (example_state ''5'')
   \<and> tracked_ids (example_state ''5'') \<noteq> tracked_ids (example_state ''7'')"
proof -
  let ?frame = "example_frame [example_line 10 [] [example_obstacle ''5'' True 5]]"
  let ?frame' = "example_frame [example_line 20 [] [example_obstacle ''5'' True 5]]"
  let ?cur = "example_scenario LANE_FOLLOW STATUS_PROCESSING"
  let ?st' = "(example_state ''5'')\<lparr>msg' := ''side pass obstacle: 7''\<rparr>"
  have t: "scenario_type ?cur = LANE_FOLLOW"
    by (simp add: example_scenario_def)
  have l: "reference_line_info ?frame = [example_line 10 [] [example_obstacle ''5'' True 5]]"
    by (simp add: example_frame_def)
  have d: "IsFarFromDestination ?frame = Inr False"
    by (simp add: IsFarFromDestination_def example_frame_def example_line_def front_def
        kClearDistance_def)
  have h: "HasBlockingObstacle example_env ?frame (example_state ''7'')
      = Inr (True, example_state ''5'')"
    and h': "HasBlockingObstacle example_env ?frame' (example_state ''7'')
      = Inr (True, example_state ''5'')"
    by (simp_all add: HasBlockingObstacle_def example_frame_def example_line_def front_def
        obstacle_step_def example_env_def example_obstacle_def example_state_def
        set_front_blocking_obstacle_id_def example_gap_def)
  have d': "IsFarFromDestination ?frame' = Inr True"
    by (simp add: IsFarFromDestination_def example_frame_def example_line_def front_def
        kClearDistance_def)
  have i': "IsFarFromIntersection example_env ?frame' = Inr True"
    by (simp add: IsFarFromIntersection_def example_frame_def example_line_def front_def)
  have l': "length (reference_line_info ?frame') = 1"
    by (simp add: example_frame_def)
  have p: "side_pass_front_blocking_obstacle_id (example_state ''7'') = ''7''"
    by (simp add: example_state_def)
  have e: "IsTransferable example_env ?cur ?frame' (example_state ''7'') = Inr (True, ?st')"
    using t h' d' i' l' p
    by (simp add: IsTransferable_def IsSidePassScenario_def Let_def)
  have n: "tracked_ids (example_state ''5'') \<noteq> tracked_ids (example_state ''7'')"
    by (simp add: tracked_ids_def example_state_def)
  from entry_stopped_by_destination_keeps_state
         [of ?cur ?frame _ example_env "example_state ''7''"] t l d
  have r: "IsTransferable example_env ?cur ?frame (example_state ''7'')
      = Inr (False, example_state ''7'')"
    by blast
  have n': "tracked_ids ?st' \<noteq> tracked_ids (example_state ''7'')"
    by (simp add: tracked_ids_def example_state_def)
  from entry_stopped_by_destination_keeps_state
         [of ?cur ?frame' _ example_env "example_state ''7''"] e
  have "tracked_ids ?st' = tracked_ids (example_state ''7'')
      \<or> (\<exists>b' st''. HasBlockingObstacle example_env ?frame' (example_state ''7'') = Inr (b', st'')
             \<and> tracked_ids ?st' = tracked_ids st'')"
    by blast
  with n' h' have i: "tracked_ids ?st' = tracked_ids (example_state ''5'')"
    by auto
  from t l d r h e h' i n show ?thesis by blast
qed

section \<open>Creating a stage\<close>

lemma registered_keys_RegisterStages:
  "registered_keys (s_stage_factory' (RegisterStages st)) =
     (if s_stage_factory' st = [] then {SIDE_PASS_DEFAULT_STAGE}
      else registered_keys (s_stage_factory' st))"
  by (simp add: RegisterStages_def Empty_def Register_def registered_keys_def)

lemma CreateObjectOrNull_unregistered:
  "key \<notin> registered_keys factory \<Longrightarrow> CreateObjectOrNull factory key config = None"
proof -
  assume "key \<notin> registered_keys factory"
  then have "map_of factory key = None"
    by (simp add: registered_keys_def map_of_eq_None_iff)
  then show ?thesis
    by (simp add: CreateObjectOrNull_def)
qed

text \<open>
  Claim C9. When the stage type of the requested configuration is not a key of the
  registry (as it stands after the lazy registration that \<open>CreateStage\<close> starts with),
  \<open>CreateStage\<close> returns null and appends one error line that contains the printed
  configuration; the result is an ordinary value of the function.
\<close>

theorem CreateStage_unregistered_key:
  assumes "stage_type stage_config \<notin> registered_keys (s_stage_factory' (RegisterStages st))"
  shows "CreateStage env stage_config st =
           (None,
            (RegisterStages st)\<lparr>error_log := error_log st @
               [''Failed to create stage for config: '' @ DebugString env stage_config]\<rparr>)"
proof -
  have "CreateObjectOrNull (s_stage_factory' (RegisterStages st)) (stage_type stage_config)
          stage_config = None"
    using assms by (rule CreateObjectOrNull_unregistered)
  moreover have "error_log (RegisterStages st) = error_log st"
    by (simp add: RegisterStages_def)
  ultimately show ?thesis
    by (simp add: CreateStage_def Let_def)
qed

theorem CreateStage_unregistered_key_witness:
  "stage_type \<lparr>stage_type = OTHER_STAGE 3, stage_name = ''BACKUP''\<rparr>
     \<notin> registered_keys (s_stage_factory' (RegisterStages (example_state [])))
   \<and> CreateStage example_env \<lparr>stage_type = OTHER_STAGE 3, stage_name = ''BACKUP''\<rparr> (example_state [])
       = (None,
          (example_state [])
            \<lparr>s_stage_factory' := [(SIDE_PASS_DEFAULT_STAGE, new_StageSidePass)],
             error_log := [''Failed to create stage for config: BACKUP'']\<rparr>)"
proof -
  let ?config = "\<lparr>stage_type = OTHER_STAGE 3, stage_name = ''BACKUP''\<rparr>"
  have k: "stage_type ?config \<notin> registered_keys (s_stage_factory' (RegisterStages (example_state [])))"
    by (simp add: registered_keys_RegisterStages example_state_def)
  have r: "RegisterStages (example_state [])
      = (example_state [])\<lparr>s_stage_factory' := [(SIDE_PASS_DEFAULT_STAGE, new_StageSidePass)]\<rparr>"
    by (simp add: RegisterStages_def Empty_def Register_def example_state_def)
  have d: "DebugString example_env ?config = ''BACKUP''"
    by (simp add: example_env_def)
  have e: "error_log (example_state []) = []"
    by (simp add: example_state_def)
  from CreateStage_unregistered_key [OF k, of example_env] r d e
  have "CreateStage example_env ?config (example_state [])
      = (None,
          (example_state [])
            \<lparr>s_stage_factory' := [(SIDE_PASS_DEFAULT_STAGE, new_StageSidePass)],
             error_log := [''Failed to create stage for config: BACKUP'']\<rparr>)"
    by simp
  with k show ?thesis by blast
qed

section \<open>The distance to intersections\<close>

lemma overlaps_loop_iff:
  "overlaps_loop env (AdcSlBoundary rli) overlaps
     = (\<forall>overlap \<in> set overlaps. \<not> too_close env rli overlap)"
proof (induction overlaps)
  case Nil
  show ?case by simp
next
  case (Cons overlap rest)
  show ?case
  proof (cases "fst overlap = SIGNAL")
    case True
    with Cons show ?thesis
      by (simp add: too_close_def relevant_overlap_def overlap_threshold_def Let_def)
  next
    case False
    with Cons show ?thesis
      by (auto simp add: too_close_def relevant_overlap_def overlap_threshold_def
          kClearDistance_def Let_def)
  qed
qed

text \<open>
  Claim C7. On a snapshot with one reference line \<open>IsFarFromIntersection\<close> returns true
  exactly when no relevant overlap is too close: overlaps of a type other than clear area,
  crosswalk, signal and stop sign do not count; the distance of an overlap is its start
  minus the end of the ego vehicle's boundary, as the subtraction on doubles gives it; a
  signal overlap is compared with the configured minimum distance to a signal
  intersection and every other relevant overlap with 15.0. Whatever follows an overlap
  that is too close, the result is false.
\<close>

theorem IsFarFromIntersection_single_line:
  assumes "reference_line_info frame = [rli]"
  shows "IsFarFromIntersection env frame = Inr (no_overlap_too_close env rli)
       \<and> (\<forall>before overlap after.
             FirstEncounteredOverlaps rli = before @ overlap # after \<and> too_close env rli overlap
             \<longrightarrow> IsFarFromIntersection env frame = Inr False)"
proof -
  have r: "IsFarFromIntersection env frame = Inr (no_overlap_too_close env rli)"
    using assms
    by (simp add: IsFarFromIntersection_def front_def no_overlap_too_close_def overlaps_loop_iff)
  moreover have "\<not> no_overlap_too_close env rli"
    if "FirstEncounteredOverlaps rli = before @ overlap # after" and "too_close env rli overlap"
    for before overlap after
    using that by (auto simp add: no_overlap_too_close_def)
  ultimately show ?thesis by simp
qed

theorem IsFarFromIntersection_single_line_witness:
  "reference_line_info
      (example_frame [example_line 20
         [(PNC_JUNCTION, \<lparr>overlap_start_s = 11\<rparr>), (SIGNAL, \<lparr>overlap_start_s = 60\<rparr>),
          (CROSSWALK, \<lparr>overlap_start_s = 25\<rparr>)] []])
     = [example_line 20
         [(PNC_JUNCTION, \<lparr>overlap_start_s = 11\<rparr>), (SIGNAL, \<lparr>overlap_start_s = 60\<rparr>),
          (CROSSWALK, \<lparr>overlap_start_s = 25\<rparr>)] []]
   \<and> IsFarFromIntersection example_env
        (example_frame [example_line 20
           [(PNC_JUNCTION, \<lparr>overlap_start_s = 11\<rparr>), (SIGNAL, \<lparr>overlap_start_s = 60\<rparr>),
            (CROSSWALK, \<lparr>overlap_start_s = 25\<rparr>)] []])
       = Inr True
   \<and> reference_line_info
        (example_frame [example_line 20
           [(SIGNAL, \<lparr>overlap_start_s = 60\<rparr>), (STOP_SIGN, \<lparr>overlap_start_s = 24\<rparr>),
            (CLEAR_AREA, \<lparr>overlap_start_s = 90\<rparr>)] []])
       = [example_line 20
           [(SIGNAL, \<lparr>overlap_start_s = 60\<rparr>), (STOP_SIGN, \<lparr>overlap_start_s = 24\<rparr>),
            (CLEAR_AREA, \<lparr>overlap_start_s = 90\<rparr>)] []]
   \<and> too_close example_env
        (example_line 20
           [(SIGNAL, \<lparr>overlap_start_s = 60\<rparr>), (STOP_SIGN, \<lparr>overlap_start_s = 24\<rparr>),
            (CLEAR_AREA, \<lparr>overlap_start_s = 90\<rparr>)] [])
        (STOP_SIGN, \<lparr>overlap_start_s = 24\<rparr>)
   \<and> IsFarFromIntersection example_env
        (example_frame [example_line 20
           [(SIGNAL, \<lparr>overlap_start_s = 60\<rparr>), (STOP_SIGN, \<lparr>overlap_start_s = 24\<rparr>),
            (CLEAR_AREA, \<lparr>overlap_start_s = 90\<rparr>)] []])
       = Inr False"
proof -
  let ?far = "example_line 20
         [(PNC_JUNCTION, \<lparr>overlap_start_s = 11\<rparr>), (SIGNAL, \<lparr>overlap_start_s = 60\<rparr>),
          (CROSSWALK, \<lparr>overlap_start_s = 25\<rparr>)] []"
  let ?near = "example_line 20
           [(SIGNAL, \<lparr>overlap_start_s = 60\<rparr>), (STOP_SIGN, \<lparr>overlap_start_s = 24\<rparr>),
            (CLEAR_AREA, \<lparr>overlap_start_s = 90\<rparr>)] []"
  have l: "reference_line_info (example_frame [?far]) = [?far]"
    and l': "reference_line_info (example_frame [?near]) = [?near]"
    by (simp_all add: example_frame_def)
  have n: "no_overlap_too_close example_env ?far"
    by (simp add: no_overlap_too_close_def too_close_def relevant_overlap_def
        overlap_threshold_def example_line_def example_env_def)
  have s: "FirstEncounteredOverlaps ?near
      = [(SIGNAL, \<lparr>overlap_start_s = 60\<rparr>)] @ (STOP_SIGN, \<lparr>overlap_start_s = 24\<rparr>)
          # [(CLEAR_AREA, \<lparr>overlap_start_s = 90\<rparr>)]"
    by (simp add: example_line_def)
  have c: "too_close example_env ?near (STOP_SIGN, \<lparr>overlap_start_s = 24\<rparr>)"
    by (simp add: too_close_def relevant_overlap_def overlap_threshold_def example_line_def
        example_env_def)
  from IsFarFromIntersection_single_line [OF l, of example_env] n
  have r: "IsFarFromIntersection example_env (example_frame [?far]) = Inr True"
    by simp
  from IsFarFromIntersection_single_line [OF l', of example_env] s c
  have r': "IsFarFromIntersection example_env (example_frame [?near]) = Inr False"
    by blast
  from l r l' c r' show ?thesis by blast
qed

section \<open>The scan for the blocking obstacle\<close>

lemma set_front_blocking_obstacle_id_twice:
  "set_front_blocking_obstacle_id a (set_front_blocking_obstacle_id b st)
     = set_front_blocking_obstacle_id a st"
  by (simp add: set_front_blocking_obstacle_id_def)

lemma scenario_config_set_front_blocking_obstacle_id:
  "scenario_config' (side_pass_context' (set_front_blocking_obstacle_id a st))
     = scenario_config' (side_pass_context' st)"
  by (simp add: set_front_blocking_obstacle_id_def)

lemma tracked_ids_set_front_blocking_obstacle_id:
  "tracked_ids (set_front_blocking_obstacle_id a st) = (a, a)"
  by (simp add: set_front_blocking_obstacle_id_def tracked_ids_def)

lemma blocking_obstacles_set_front_blocking_obstacle_id:
  "blocking_obstacles env frame (set_front_blocking_obstacle_id a st) obstacles
     = blocking_obstacles env frame st obstacles"
  by (simp add: blocking_obstacles_def scenario_config_set_front_blocking_obstacle_id)

lemma blocking_obstacles_snoc:
  "blocking_obstacles env frame st (obstacles @ [obstacle])
     = blocking_obstacles env frame st obstacles @ blocking_obstacles env frame st [obstacle]"
  by (simp add: blocking_obstacles_def)

lemma obstacles_loop_append:
  "obstacles_loop env frame (xs @ ys) vars
     = obstacles_loop env frame ys (obstacles_loop env frame xs vars)"
  by (induction xs arbitrary: vars) simp_all

lemma obstacle_step_not_blocking:
  "blocking_obstacles env frame st [obstacle] = []
     \<Longrightarrow> obstacle_step env frame obstacle (c, e, st) = (c, e, st)"
  by (simp add: obstacle_step_def blocking_obstacles_def Let_def split: if_splits)

lemma obstacle_step_blocking:
  "blocking_obstacles env frame st [obstacle] = [obstacle]
     \<Longrightarrow> obstacle_step env frame obstacle (c, e, st)
         = (if c < 0 \<or> GetDistanceBetweenADCAndObstacle env frame obstacle < c
            then (GetDistanceBetweenADCAndObstacle env frame obstacle, True,
                  set_front_blocking_obstacle_id (Id_obstacle obstacle) st)
            else (c, True, st))"
  by (simp add: obstacle_step_def blocking_obstacles_def Let_def split: if_splits)

lemma blocking_obstacles_single:
  "blocking_obstacles env frame st [obstacle] = []
   \<or> blocking_obstacles env frame st [obstacle] = [obstacle]"
  by (simp add: blocking_obstacles_def)

text \<open>A non-empty list of candidates has a closest one.\<close>

lemma closest_first_None:
  "closest_first distance_of candidates = None \<longleftrightarrow> candidates = []"
proof
  assume n: "closest_first distance_of candidates = None"
  show "candidates = []"
  proof (rule ccontr)
    assume "candidates \<noteq> []"
    then have "distance_of ` set candidates \<noteq> {}" and "finite (distance_of ` set candidates)"
      by simp_all
    then have "Min (distance_of ` set candidates) \<in> distance_of ` set candidates"
      by (rule_tac Min_in)
    then obtain c where c: "c \<in> set candidates"
      and m: "distance_of c = Min (distance_of ` set candidates)"
      by auto
    have "\<forall>c' \<in> set candidates. distance_of c \<le> distance_of c'"
      using m by simp
    with c n show False
      by (auto simp add: closest_first_def find_None_iff)
  qed
next
  assume "candidates = []"
  then show "closest_first distance_of candidates = None"
    by (simp add: closest_first_def)
qed

lemma closest_first_Some:
  assumes "closest_first distance_of candidates = Some m"
  shows "m \<in> set candidates" and "\<forall>c \<in> set candidates. distance_of m \<le> distance_of c"
  using assms
  by (auto simp add: closest_first_def find_Some_iff)

lemma find_append_cases:
  "find P (xs @ ys) = (case find P xs of None \<Rightarrow> find P ys | Some x \<Rightarrow> Some x)"
  by (induction xs) simp_all

lemma closest_first_snoc:
  "closest_first distance_of (candidates @ [x]) =
     (case closest_first distance_of candidates of
        None \<Rightarrow> Some x
      | Some m \<Rightarrow> if distance_of x < distance_of m then Some x else Some m)"
proof (cases "closest_first distance_of candidates")
  case None
  then have "candidates = []"
    by (simp add: closest_first_None)
  with None show ?thesis
    by (simp add: closest_first_def)
next
  case (Some m)
  note m = closest_first_Some [OF Some]
  show ?thesis
  proof (cases "distance_of x < distance_of m")
    case True
    have "find (\<lambda>c. \<forall>c' \<in> set (candidates @ [x]). distance_of c \<le> distance_of c') candidates = None"
      using True m by (fastforce simp add: find_None_iff)
    moreover have "\<forall>c' \<in> set (candidates @ [x]). distance_of x \<le> distance_of c'"
      using True m by fastforce
    ultimately show ?thesis
      using Some True by (simp add: closest_first_def find_append_cases del: set_append)
  next
    case False
    have "find (\<lambda>c. \<forall>c' \<in> set (candidates @ [x]). distance_of c \<le> distance_of c') candidates
        = find (\<lambda>c. \<forall>c' \<in> set candidates. distance_of c \<le> distance_of c') candidates"
    proof (rule find_cong)
      fix c
      assume "c \<in> set candidates"
      show "(\<forall>c' \<in> set (candidates @ [x]). distance_of c \<le> distance_of c')
          = (\<forall>c' \<in> set candidates. distance_of c \<le> distance_of c')"
        using False m by fastforce
    qed simp
    then show ?thesis
      using Some False by (simp add: closest_first_def find_append_cases del: set_append)
  qed
qed


text \<open>
  The loop invariant: after the scan of a registry whose blocking obstacles all have a
  non-negative distance, the loop variables and the state describe the closest blocking
  obstacle of the registry, the first one among equals.
\<close>

lemma obstacles_loop_closest:
  assumes "\<forall>obstacle \<in> set (blocking_obstacles env frame st obstacles).
             0 \<le> GetDistanceBetweenADCAndObstacle env frame obstacle"
  shows "obstacles_loop env frame obstacles (- 100.0, False, st) =
           (case closest_first (GetDistanceBetweenADCAndObstacle env frame)
                   (blocking_obstacles env frame st obstacles) of
              None \<Rightarrow> (- 100.0, False, st)
            | Some m \<Rightarrow> (GetDistanceBetweenADCAndObstacle env frame m, True,
                         set_front_blocking_obstacle_id (Id_obstacle m) st))"
  using assms
proof (induction obstacles rule: rev_induct)
  case Nil
  show ?case by (simp add: blocking_obstacles_def closest_first_def)
next
  case (snoc x xs)
  let ?d = "GetDistanceBetweenADCAndObstacle env frame"
  let ?bs = "blocking_obstacles env frame st xs"
  have nonneg: "\<forall>obstacle \<in> set ?bs. 0 \<le> ?d obstacle"
    using snoc.prems by (simp add: blocking_obstacles_snoc)
  note IH = snoc.IH [OF nonneg]
  have loop: "obstacles_loop env frame (xs @ [x]) (- 100.0, False, st)
      = obstacle_step env frame x (obstacles_loop env frame xs (- 100.0, False, st))"
    by (simp add: obstacles_loop_append)
  from blocking_obstacles_single [of env frame st x] show ?case
  proof
    assume nb: "blocking_obstacles env frame st [x] = []"
    then have same: "blocking_obstacles env frame st (xs @ [x]) = ?bs"
      by (simp add: blocking_obstacles_snoc)
    show ?case
    proof (cases "closest_first ?d ?bs")
      case None
      with IH nb same loop show ?thesis
        by (simp add: obstacle_step_not_blocking)
    next
      case (Some m)
      from nb have "blocking_obstacles env frame
          (set_front_blocking_obstacle_id (Id_obstacle m) st) [x] = []"
        by (simp add: blocking_obstacles_set_front_blocking_obstacle_id)
      with Some IH same loop show ?thesis
        by (simp add: obstacle_step_not_blocking)
    qed
  next
    assume b: "blocking_obstacles env frame st [x] = [x]"
    then have more: "blocking_obstacles env frame st (xs @ [x]) = ?bs @ [x]"
      by (simp add: blocking_obstacles_snoc)
    show ?case
    proof (cases "closest_first ?d ?bs")
      case None
      with IH b more loop show ?thesis
        by (simp add: obstacle_step_blocking closest_first_snoc)
    next
      case (Some m)
      have "m \<in> set ?bs"
        using Some by (rule closest_first_Some)
      with nonneg have m0: "0 \<le> ?d m"
        by blast
      from b have b': "blocking_obstacles env frame
          (set_front_blocking_obstacle_id (Id_obstacle m) st) [x] = [x]"
        by (simp add: blocking_obstacles_set_front_blocking_obstacle_id)
      from Some IH loop have "obstacles_loop env frame (xs @ [x]) (- 100.0, False, st)
          = obstacle_step env frame x
              (?d m, True, set_front_blocking_obstacle_id (Id_obstacle m) st)"
        by simp
      also have "\<dots> = (if ?d x < ?d m
            then (?d x, True, set_front_blocking_obstacle_id (Id_obstacle x) st)
            else (?d m, True, set_front_blocking_obstacle_id (Id_obstacle m) st))"
        using m0 by (simp add: obstacle_step_blocking [OF b'] set_front_blocking_obstacle_id_twice)
      finally show ?thesis
        using Some more by (simp add: closest_first_snoc)
    qed
  qed
qed

text \<open>Facts of the loop that hold for every distance metric.\<close>

lemma obstacles_loop_none_blocking:
  "blocking_obstacles env frame st obstacles = []
     \<Longrightarrow> obstacles_loop env frame obstacles (c, e, st) = (c, e, st)"
proof (induction obstacles)
  case Nil
  show ?case by simp
next
  case (Cons x xs)
  from Cons.prems have x: "blocking_obstacles env frame st [x] = []"
    and xs: "blocking_obstacles env frame st xs = []"
    by (simp_all add: blocking_obstacles_def split: if_splits)
  from Cons.IH [OF xs] x show ?case
    by (simp add: obstacle_step_not_blocking)
qed

lemma obstacles_loop_shape:
  "\<exists>c' st'. obstacles_loop env frame obstacles (c, e, st)
        = (c', e \<or> blocking_obstacles env frame st obstacles \<noteq> [], st')
      \<and> (st' = st
          \<or> (\<exists>obstacle \<in> set (blocking_obstacles env frame st obstacles).
                st' = set_front_blocking_obstacle_id (Id_obstacle obstacle) st))"
proof (induction obstacles arbitrary: c e st)
  case Nil
  show ?case by (simp add: blocking_obstacles_def)
next
  case (Cons x xs)
  from blocking_obstacles_single [of env frame st x] show ?case
  proof
    assume nb: "blocking_obstacles env frame st [x] = []"
    then have "blocking_obstacles env frame st (x # xs) = blocking_obstacles env frame st xs"
      by (simp add: blocking_obstacles_def split: if_splits)
    with Cons.IH [of c e st] nb show ?thesis
      by (simp add: obstacle_step_not_blocking)
  next
    assume b: "blocking_obstacles env frame st [x] = [x]"
    then have more: "blocking_obstacles env frame st (x # xs)
        = x # blocking_obstacles env frame st xs"
      by (simp add: blocking_obstacles_def split: if_splits)
    show ?thesis
    proof (cases "c < 0 \<or> GetDistanceBetweenADCAndObstacle env frame x < c")
      case True
      let ?st1 = "set_front_blocking_obstacle_id (Id_obstacle x) st"
      from Cons.IH [of "GetDistanceBetweenADCAndObstacle env frame x" True ?st1]
      obtain c' st' where
        l: "obstacles_loop env frame xs (GetDistanceBetweenADCAndObstacle env frame x, True, ?st1)
              = (c', True, st')"
        and s: "st' = ?st1 \<or> (\<exists>obstacle \<in> set (blocking_obstacles env frame st xs).
                  st' = set_front_blocking_obstacle_id (Id_obstacle obstacle) st)"
        by (auto simp add: blocking_obstacles_set_front_blocking_obstacle_id
            set_front_blocking_obstacle_id_twice)
      from s more have "\<exists>obstacle \<in> set (blocking_obstacles env frame st (x # xs)).
          st' = set_front_blocking_obstacle_id (Id_obstacle obstacle) st"
        by auto
      with l True more show ?thesis
        by (simp add: obstacle_step_blocking [OF b])
    next
      case False
      from Cons.IH [of c True st]
      obtain c' st' where
        l: "obstacles_loop env frame xs (c, True, st) = (c', True, st')"
        and s: "st' = st \<or> (\<exists>obstacle \<in> set (blocking_obstacles env frame st xs).
                  st' = set_front_blocking_obstacle_id (Id_obstacle obstacle) st)"
        by auto
      from s more have "st' = st \<or> (\<exists>obstacle \<in> set (blocking_obstacles env frame st (x # xs)).
          st' = set_front_blocking_obstacle_id (Id_obstacle obstacle) st)"
        by auto
      with l False more show ?thesis
        by (simp add: obstacle_step_blocking [OF b])
    qed
  qed
qed

text \<open>From the initial loop variables the first blocking obstacle is always recorded.\<close>

lemma obstacles_loop_records:
  assumes "c < 0" and "blocking_obstacles env frame st obstacles \<noteq> []"
  shows "\<exists>c' obstacle. obstacle \<in> set (blocking_obstacles env frame st obstacles)
      \<and> obstacles_loop env frame obstacles (c, e, st)
          = (c', True, set_front_blocking_obstacle_id (Id_obstacle obstacle) st)"
  using assms(2)
proof (induction obstacles)
  case Nil
  then show ?case by (simp add: blocking_obstacles_def)
next
  case (Cons x xs)
  from blocking_obstacles_single [of env frame st x] show ?case
  proof
    assume nb: "blocking_obstacles env frame st [x] = []"
    then have same: "blocking_obstacles env frame st (x # xs) = blocking_obstacles env frame st xs"
      by (simp add: blocking_obstacles_def split: if_splits)
    with Cons nb show ?thesis
      by (simp add: obstacle_step_not_blocking)
  next
    assume b: "blocking_obstacles env frame st [x] = [x]"
    then have more: "blocking_obstacles env frame st (x # xs)
        = x # blocking_obstacles env frame st xs"
      by (simp add: blocking_obstacles_def split: if_splits)
    let ?st1 = "set_front_blocking_obstacle_id (Id_obstacle x) st"
    from obstacles_loop_shape [of env frame xs "GetDistanceBetweenADCAndObstacle env frame x" True ?st1]
    obtain c' st' where
      l: "obstacles_loop env frame xs (GetDistanceBetweenADCAndObstacle env frame x, True, ?st1)
            = (c', True, st')"
      and s: "st' = ?st1 \<or> (\<exists>obstacle \<in> set (blocking_obstacles env frame st xs).
                st' = set_front_blocking_obstacle_id (Id_obstacle obstacle) st)"
      by (auto simp add: blocking_obstacles_set_front_blocking_obstacle_id
          set_front_blocking_obstacle_id_twice)
    from s more obtain obstacle where "obstacle \<in> set (blocking_obstacles env frame st (x # xs))"
      and "st' = set_front_blocking_obstacle_id (Id_obstacle obstacle) st"
      by auto
    with l assms(1) show ?thesis
      by (auto simp add: obstacle_step_blocking [OF b])
  qed
qed

lemma set_blocking_obstacles:
  "set (blocking_obstacles env frame st obstacles) \<subseteq> set obstacles"
  by (simp add: blocking_obstacles_def)

text \<open>
  Claim C8. On a snapshot with one reference line, when the classifier calls no obstacle
  of the registry blocking, \<open>HasBlockingObstacle\<close> returns false and leaves the empty
  id in the scenario's context and in the planning context; when it calls at least one
  obstacle blocking, \<open>HasBlockingObstacle\<close> returns true.
\<close>

theorem HasBlockingObstacle_result:
  assumes "reference_line_info frame = [rli]"
  shows "(blocking_obstacles env frame st (path_decision_obstacles rli) = [] \<longrightarrow>
            HasBlockingObstacle env frame st = Inr (False, set_front_blocking_obstacle_id [] st)
            \<and> tracked_ids (set_front_blocking_obstacle_id [] st) = ([], []))
       \<and> (blocking_obstacles env frame st (path_decision_obstacles rli) \<noteq> [] \<longrightarrow>
            (\<exists>st'. HasBlockingObstacle env frame st = Inr (True, st')))"
proof (intro conjI impI)
  assume "blocking_obstacles env frame st (path_decision_obstacles rli) = []"
  then show "HasBlockingObstacle env frame st = Inr (False, set_front_blocking_obstacle_id [] st)"
    using assms by (simp add: HasBlockingObstacle_def front_def obstacles_loop_none_blocking)
next
  show "tracked_ids (set_front_blocking_obstacle_id [] st) = ([], [])"
    by (rule tracked_ids_set_front_blocking_obstacle_id)
next
  assume "blocking_obstacles env frame st (path_decision_obstacles rli) \<noteq> []"
  with obstacles_loop_shape [of env frame "path_decision_obstacles rli" "- 100.0" False st]
  obtain c' st' where "obstacles_loop env frame (path_decision_obstacles rli) (- 100.0, False, st)
      = (c', True, st')"
    by auto
  then show "\<exists>st'. HasBlockingObstacle env frame st = Inr (True, st')"
    using assms by (simp add: HasBlockingObstacle_def front_def)
qed

theorem HasBlockingObstacle_result_witness:
  "reference_line_info (example_frame [example_line 20 [] [example_obstacle ''moving'' False 3]])
     = [example_line 20 [] [example_obstacle ''moving'' False 3]]
   \<and> blocking_obstacles example_env
        (example_frame [example_line 20 [] [example_obstacle ''moving'' False 3]]) (example_state ''7'')
        (path_decision_obstacles (example_line 20 [] [example_obstacle ''moving'' False 3])) = []
   \<and> HasBlockingObstacle example_env
        (example_frame [example_line 20 [] [example_obstacle ''moving'' False 3]]) (example_state ''7'')
       = Inr (False, example_state [])
   \<and> tracked_ids (example_state []) = ([], [])
   \<and> reference_line_info
        (example_frame [example_line 20 [] [example_obstacle ''moving'' False 3, example_obstacle ''5'' True 5]])
       = [example_line 20 [] [example_obstacle ''moving'' False 3, example_obstacle ''5'' True 5]]
   \<and> blocking_obstacles example_env
        (example_frame [example_line 20 [] [example_obstacle ''moving'' False 3, example_obstacle ''5'' True 5]])
        (example_state ''7'')
        (path_decision_obstacles
           (example_line 20 [] [example_obstacle ''moving'' False 3, example_obstacle ''5'' True 5]))
       \<noteq> []
   \<and> HasBlockingObstacle example_env
        (example_frame [example_line 20 [] [example_obstacle ''moving'' False 3, example_obstacle ''5'' True 5]])
        (example_state ''7'')
       = Inr (True, example_state ''5'')"
proof -
  let ?none = "example_line 20 [] [example_obstacle ''moving'' False 3]"
  let ?one = "example_line 20 [] [example_obstacle ''moving'' False 3, example_obstacle ''5'' True 5]"
  let ?st = "example_state ''7''"
  have l: "reference_line_info (example_frame [?none]) = [?none]"
    and l': "reference_line_info (example_frame [?one]) = [?one]"
    by (simp_all add: example_frame_def)
  have b: "blocking_obstacles example_env (example_frame [?none]) ?st (path_decision_obstacles ?none) = []"
    by (simp add: blocking_obstacles_def example_env_def example_line_def example_obstacle_def)
  have b': "blocking_obstacles example_env (example_frame [?one]) ?st (path_decision_obstacles ?one) \<noteq> []"
    by (simp add: blocking_obstacles_def example_env_def example_line_def example_obstacle_def)
  have s: "set_front_blocking_obstacle_id [] ?st = example_state []"
    by (simp add: set_front_blocking_obstacle_id_def example_state_def)
  from HasBlockingObstacle_result [OF l, of example_env ?st] b s
  have r: "HasBlockingObstacle example_env (example_frame [?none]) ?st = Inr (False, example_state [])"
    and i: "tracked_ids (example_state []) = ([], [])"
    by simp_all
  have e: "HasBlockingObstacle example_env (example_frame [?one]) ?st = Inr (True, example_state ''5'')"
    by (simp add: HasBlockingObstacle_def example_frame_def example_line_def front_def
        obstacle_step_def example_env_def example_obstacle_def example_state_def
        set_front_blocking_obstacle_id_def example_gap_def)
  from HasBlockingObstacle_result [OF l', of example_env ?st] b'
  obtain st' where "HasBlockingObstacle example_env (example_frame [?one]) ?st = Inr (True, st')"
    by blast
  with e have "HasBlockingObstacle example_env (example_frame [?one]) ?st
      = Inr (True, example_state ''5'')"
    by simp
  with l b r i l' b' show ?thesis by blast
qed

text \<open>
  Claim C1, as the specification states it, fails when a blocking obstacle has a negative
  distance: the loop reads a negative closest distance as "none recorded yet", so the
  obstacle scanned after it replaces it although it is farther away.
\<close>

theorem HasBlockingObstacle_tracks_closest_counterexample:
  "length (reference_line_info
      (example_frame [example_line 20 []
         [example_obstacle ''alongside'' True (- 0.5), example_obstacle ''ahead'' True 5]])) = 1
   \<and> closest_blocking_obstacle example_env
        (example_frame [example_line 20 []
           [example_obstacle ''alongside'' True (- 0.5), example_obstacle ''ahead'' True 5]])
        (example_state [])
        (example_line 20 []
           [example_obstacle ''alongside'' True (- 0.5), example_obstacle ''ahead'' True 5])
       = Some (example_obstacle ''alongside'' True (- 0.5))
   \<and> Id_obstacle (example_obstacle ''alongside'' True (- 0.5)) = ''alongside''
   \<and> HasBlockingObstacle example_env
        (example_frame [example_line 20 []
           [example_obstacle ''alongside'' True (- 0.5), example_obstacle ''ahead'' True 5]])
        (example_state [])
       = Inr (True, example_state ''ahead'')
   \<and> tracked_ids (example_state ''ahead'') = (''ahead'', ''ahead'')"
  by (simp add: closest_blocking_obstacle_def closest_first_def blocking_obstacles_def
      HasBlockingObstacle_def example_frame_def example_line_def front_def
      obstacle_step_def example_env_def example_obstacle_def example_state_def
      set_front_blocking_obstacle_id_def example_gap_def tracked_ids_def)

text \<open>
  Claim C1, amended. On a snapshot with one reference line in which every obstacle that
  the classifier calls blocking has a non-negative distance and at least one obstacle is
  blocking, \<open>HasBlockingObstacle\<close> returns true and leaves, in the scenario's context and
  in the planning context, the id of the blocking obstacle with the smallest distance,
  the first one in scan order among those of equal distance; nothing else of the state
  changes.
\<close>

theorem HasBlockingObstacle_tracks_closest:
  assumes "reference_line_info frame = [rli]"
    and "\<forall>obstacle \<in> set (blocking_obstacles env frame st (path_decision_obstacles rli)).
           0 \<le> GetDistanceBetweenADCAndObstacle env frame obstacle"
    and "closest_blocking_obstacle env frame st rli = Some m"
  shows "HasBlockingObstacle env frame st
           = Inr (True, set_front_blocking_obstacle_id (Id_obstacle m) st)
       \<and> tracked_ids (set_front_blocking_obstacle_id (Id_obstacle m) st)
           = (Id_obstacle m, Id_obstacle m)"
proof -
  from assms(3) obstacles_loop_closest [OF assms(2)]
  have "obstacles_loop env frame (path_decision_obstacles rli) (- 100.0, False, st)
      = (GetDistanceBetweenADCAndObstacle env frame m, True,
         set_front_blocking_obstacle_id (Id_obstacle m) st)"
    by (simp add: closest_blocking_obstacle_def)
  with assms(1) show ?thesis
    by (simp add: HasBlockingObstacle_def front_def tracked_ids_set_front_blocking_obstacle_id)
qed

theorem HasBlockingObstacle_tracks_closest_witness:
  "reference_line_info
      (example_frame [example_line 20 []
         [example_obstacle ''moving'' False 1, example_obstacle ''8'' True 8,
          example_obstacle ''3'' True 3, example_obstacle ''3 again'' True 3]])
     = [example_line 20 []
         [example_obstacle ''moving'' False 1, example_obstacle ''8'' True 8,
          example_obstacle ''3'' True 3, example_obstacle ''3 again'' True 3]]
   \<and> closest_blocking_obstacle example_env
        (example_frame [example_line 20 []
           [example_obstacle ''moving'' False 1, example_obstacle ''8'' True 8,
            example_obstacle ''3'' True 3, example_obstacle ''3 again'' True 3]])
        (example_state [])
        (example_line 20 []
           [example_obstacle ''moving'' False 1, example_obstacle ''8'' True 8,
            example_obstacle ''3'' True 3, example_obstacle ''3 again'' True 3])
       = Some (example_obstacle ''3'' True 3)
   \<and> HasBlockingObstacle example_env
        (example_frame [example_line 20 []
           [example_obstacle ''moving'' False 1, example_obstacle ''8'' True 8,
            example_obstacle ''3'' True 3, example_obstacle ''3 again'' True 3]])
        (example_state [])
       = Inr (True, example_state ''3'')
   \<and> tracked_ids (example_state ''3'') = (''3'', ''3'')"
proof -
  let ?line = "example_line 20 []
         [example_obstacle ''moving'' False 1, example_obstacle ''8'' True 8,
          example_obstacle ''3'' True 3, example_obstacle ''3 again'' True 3]"
  let ?frame = "example_frame [?line]"
  have l: "reference_line_info ?frame = [?line]"
    by (simp add: example_frame_def)
  have bs: "blocking_obstacles example_env ?frame (example_state []) (path_decision_obstacles ?line)
      = [example_obstacle ''8'' True 8, example_obstacle ''3'' True 3,
         example_obstacle ''3 again'' True 3]"
    by (simp add: blocking_obstacles_def example_env_def example_line_def example_obstacle_def)
  have n: "\<forall>obstacle \<in> set (blocking_obstacles example_env ?frame (example_state [])
                               (path_decision_obstacles ?line)).
             0 \<le> GetDistanceBetweenADCAndObstacle example_env ?frame obstacle"
    unfolding bs
    by (simp add: example_env_def example_gap_def example_frame_def example_line_def
        example_obstacle_def)
  have c: "closest_blocking_obstacle example_env ?frame (example_state []) ?line
      = Some (example_obstacle ''3'' True 3)"
    unfolding closest_blocking_obstacle_def bs
    by (simp add: closest_first_def example_env_def example_gap_def example_frame_def
        example_line_def example_obstacle_def)
  have s: "set_front_blocking_obstacle_id (Id_obstacle (example_obstacle ''3'' True 3)) (example_state [])
      = example_state ''3''"
    by (simp add: set_front_blocking_obstacle_id_def example_state_def example_obstacle_def)
  from HasBlockingObstacle_tracks_closest [OF l n c] s
  have "HasBlockingObstacle example_env ?frame (example_state []) = Inr (True, example_state ''3'')"
    and "tracked_ids (example_state ''3'') = (''3'', ''3'')"
    by (simp_all add: example_obstacle_def)
  with l c show ?thesis by blast
qed

section \<open>The tracked id and the snapshot\<close>

text \<open>
  Claim C3, as the specification states it, fails: the constructor copies whatever id the
  planning context holds, \<open>IsTransferable\<close> leaves the id of a vanished obstacle in
  place when it returns false, and \<open>HasBlockingObstacle\<close> leaves it in place on a
  snapshot with two reference lines.
\<close>

theorem context_id_after_HasBlockingObstacle_counterexample:
  "SidePassScenario \<lparr>side_pass_config = example_config\<rparr> (example_state ''ghost'')
     = example_state ''ghost''
   \<and> \<not> context_id_valid (example_frame [example_line 20 [] [example_obstacle ''5'' True 5]])
         (example_state ''ghost'')
   \<and> IsTransferable example_env (example_scenario SIDE_PASS STATUS_PROCESSING)
        (example_frame [example_line 20 [] [example_obstacle ''5'' True 5]]) (example_state ''ghost'')
       = Inr (False, example_state ''ghost'')
   \<and> HasBlockingObstacle example_env
        (example_frame [example_line 20 [] [], example_line 20 [] []]) (example_state ''ghost'')
       = Inr (False, example_state ''ghost'')
   \<and> \<not> context_id_valid (example_frame [example_line 20 [] [], example_line 20 [] []])
         (example_state ''ghost'')"
  by (simp add: SidePassScenario_def context_id_valid_def names_snapshot_obstacle_def
      IsTransferable_def HasBlockingObstacle_def example_frame_def example_line_def
      example_scenario_def example_obstacle_def example_state_def Let_def)

text \<open>
  Claim C3, amended. After \<open>HasBlockingObstacle\<close> has run on a snapshot with one reference
  line, the id in the scenario's context is empty or is the id of an obstacle of that
  reference line's registry, and the planning context holds the same id. After
  \<open>IsTransferable\<close> on such a snapshot the id is the one from before the call or is
  empty or names an obstacle of the snapshot. After construction the id is the one the
  planning context holds.
\<close>

theorem context_id_after_HasBlockingObstacle:
  assumes "reference_line_info frame = [rli]"
  shows "(\<exists>b st'. HasBlockingObstacle env frame st = Inr (b, st')
            \<and> (front_blocking_obstacle_id' (side_pass_context' st') = []
                \<or> (\<exists>obstacle \<in> set (path_decision_obstacles rli).
                      Id_obstacle obstacle = front_blocking_obstacle_id' (side_pass_context' st')))
            \<and> side_pass_front_blocking_obstacle_id st'
                = front_blocking_obstacle_id' (side_pass_context' st')
            \<and> context_id_valid frame st')
       \<and> (\<forall>current_scenario b st'.
             IsTransferable env current_scenario frame st = Inr (b, st') \<longrightarrow>
               front_blocking_obstacle_id' (side_pass_context' st')
                 = front_blocking_obstacle_id' (side_pass_context' st)
               \<or> context_id_valid frame st')
       \<and> front_blocking_obstacle_id' (side_pass_context' (SidePassScenario config st))
           = side_pass_front_blocking_obstacle_id st"
proof -
  let ?obs = "path_decision_obstacles rli"
  have valid: "context_id_valid frame (set_front_blocking_obstacle_id i st)"
    if "i = [] \<or> (\<exists>obstacle \<in> set ?obs. Id_obstacle obstacle = i)" for i
    using that assms
    by (auto simp add: context_id_valid_def names_snapshot_obstacle_def
        set_front_blocking_obstacle_id_def)
  have shape: "\<exists>b i. HasBlockingObstacle env frame st = Inr (b, set_front_blocking_obstacle_id i st)
      \<and> (i = [] \<or> (\<exists>obstacle \<in> set ?obs. Id_obstacle obstacle = i))"
  proof (cases "blocking_obstacles env frame st ?obs = []")
    case True
    then have "HasBlockingObstacle env frame st = Inr (False, set_front_blocking_obstacle_id [] st)"
      using assms by (simp add: HasBlockingObstacle_def front_def obstacles_loop_none_blocking)
    then show ?thesis by blast
  next
    case False
    from obstacles_loop_records [OF _ False, of "- 100.0" False]
    obtain c' obstacle where o: "obstacle \<in> set (blocking_obstacles env frame st ?obs)"
      and l: "obstacles_loop env frame ?obs (- 100.0, False, st)
          = (c', True, set_front_blocking_obstacle_id (Id_obstacle obstacle) st)"
      by auto
    from l assms have "HasBlockingObstacle env frame st
        = Inr (True, set_front_blocking_obstacle_id (Id_obstacle obstacle) st)"
      by (simp add: HasBlockingObstacle_def front_def)
    moreover from o set_blocking_obstacles have "obstacle \<in> set ?obs"
      by blast
    ultimately show ?thesis by blast
  qed
  then obtain b i where
    h: "HasBlockingObstacle env frame st = Inr (b, set_front_blocking_obstacle_id i st)"
    and i: "i = [] \<or> (\<exists>obstacle \<in> set ?obs. Id_obstacle obstacle = i)"
    by blast
  have ids: "tracked_ids (set_front_blocking_obstacle_id i st) = (i, i)"
    by (rule tracked_ids_set_front_blocking_obstacle_id)
  have first: "\<exists>b st'. HasBlockingObstacle env frame st = Inr (b, st')
            \<and> (front_blocking_obstacle_id' (side_pass_context' st') = []
                \<or> (\<exists>obstacle \<in> set (path_decision_obstacles rli).
                      Id_obstacle obstacle = front_blocking_obstacle_id' (side_pass_context' st')))
            \<and> side_pass_front_blocking_obstacle_id st'
                = front_blocking_obstacle_id' (side_pass_context' st')
            \<and> context_id_valid frame st'"
    using h i ids valid [OF i]
    by (intro exI [of _ b] exI [of _ "set_front_blocking_obstacle_id i st"])
       (simp add: tracked_ids_def)
  have second: "front_blocking_obstacle_id' (side_pass_context' st')
                 = front_blocking_obstacle_id' (side_pass_context' st)
               \<or> context_id_valid frame st'"
    if t: "IsTransferable env current_scenario frame st = Inr (b', st')"
    for current_scenario b' st'
  proof -
    from IsTransferable_tracked_ids [OF t]
    show ?thesis
    proof
      assume "tracked_ids st' = tracked_ids st"
      then show ?thesis by (simp add: tracked_ids_def)
    next
      assume "\<exists>b' st''. HasBlockingObstacle env frame st = Inr (b', st'')
          \<and> tracked_ids st' = tracked_ids st''"
      with h ids have "tracked_ids st' = (i, i)"
        by auto
      with i assms have "context_id_valid frame st'"
        by (auto simp add: context_id_valid_def names_snapshot_obstacle_def tracked_ids_def)
      then show ?thesis ..
    qed
  qed
  have third: "front_blocking_obstacle_id' (side_pass_context' (SidePassScenario config st))
           = side_pass_front_blocking_obstacle_id st"
    by (simp add: SidePassScenario_def)
  from first second third show ?thesis by blast
qed

theorem context_id_after_HasBlockingObstacle_witness:
  "reference_line_info (example_frame [example_line 20 [] [example_obstacle ''5'' True 5]])
     = [example_line 20 [] [example_obstacle ''5'' True 5]]
   \<and> HasBlockingObstacle example_env
        (example_frame [example_line 20 [] [example_obstacle ''5'' True 5]]) (example_state ''ghost'')
       = Inr (True, example_state ''5'')
   \<and> context_id_valid (example_frame [example_line 20 [] [example_obstacle ''5'' True 5]])
        (example_state ''5'')
   \<and> front_blocking_obstacle_id' (side_pass_context' (example_state ''5'')) = ''5''
   \<and> side_pass_front_blocking_obstacle_id (example_state ''5'') = ''5''
   \<and> Id_obstacle (example_obstacle ''5'' True 5) = ''5''
   \<and> IsTransferable example_env (example_scenario LANE_FOLLOW STATUS_PROCESSING)
        (example_frame [example_line 20 [] [example_obstacle ''5'' True 5]]) (example_state ''ghost'')
       = Inr (True, (example_state ''5'')\<lparr>msg' := ''side pass obstacle: ghost''\<rparr>)
   \<and> context_id_valid (example_frame [example_line 20 [] [example_obstacle ''5'' True 5]])
        ((example_state ''5'')\<lparr>msg' := ''side pass obstacle: ghost''\<rparr>)"
proof -
  let ?line = "example_line 20 [] [example_obstacle ''5'' True 5]"
  let ?frame = "example_frame [?line]"
  have l: "reference_line_info ?frame = [?line]"
    by (simp add: example_frame_def)
  have h: "HasBlockingObstacle example_env ?frame (example_state ''ghost'')
      = Inr (True, example_state ''5'')"
    by (simp add: HasBlockingObstacle_def example_frame_def example_line_def front_def
        obstacle_step_def example_env_def example_obstacle_def example_state_def
        set_front_blocking_obstacle_id_def example_gap_def)
  from context_id_after_HasBlockingObstacle [OF l, of example_env "example_state ''ghost''"] h
  have v: "context_id_valid ?frame (example_state ''5'')"
    by auto
  have i: "front_blocking_obstacle_id' (side_pass_context' (example_state ''5'')) = ''5''"
    "side_pass_front_blocking_obstacle_id (example_state ''5'') = ''5''"
    "Id_obstacle (example_obstacle ''5'' True 5) = ''5''"
    by (simp_all add: example_state_def example_obstacle_def)
  let ?st' = "(example_state ''5'')\<lparr>msg' := ''side pass obstacle: ghost''\<rparr>"
  have d: "IsFarFromDestination ?frame = Inr True"
    by (simp add: IsFarFromDestination_def example_frame_def example_line_def front_def
        kClearDistance_def)
  have f: "IsFarFromIntersection example_env ?frame = Inr True"
    by (simp add: IsFarFromIntersection_def example_frame_def example_line_def front_def)
  have p: "side_pass_front_blocking_obstacle_id (example_state ''ghost'') = ''ghost''"
    and t: "scenario_type (example_scenario LANE_FOLLOW STATUS_PROCESSING) = LANE_FOLLOW"
    by (simp_all add: example_state_def example_scenario_def)
  have e: "IsTransferable example_env (example_scenario LANE_FOLLOW STATUS_PROCESSING) ?frame
      (example_state ''ghost'') = Inr (True, ?st')"
    using t h d f l p
    by (simp add: IsTransferable_def IsSidePassScenario_def Let_def)
  have n: "front_blocking_obstacle_id' (side_pass_context' ?st')
      \<noteq> front_blocking_obstacle_id' (side_pass_context' (example_state ''ghost''))"
    by (simp add: example_state_def)
  from context_id_after_HasBlockingObstacle [OF l, of example_env "example_state ''ghost''"] e n
  have v': "context_id_valid ?frame ?st'"
    by blast
  from l h v i e v' show ?thesis by blast
qed

end
